theory Spec2Isabelle
  imports Complex_Main "HOL-Library.Multiset"
begin

section \<open>Errors and Python values\<close>

text \<open>
  The exceptions that the modelled code of \<^verbatim>\<open>autosub/__init__.py\<close> can raise or see
  raised by the library calls it makes. \<open>OtherException\<close> stands for any exception the code
  names nowhere (a timeout of the HTTP library, an \<^verbatim>\<open>OSError\<close>, the plain
  \<^verbatim>\<open>Exception\<close> of \<^verbatim>\<open>extract_audio\<close>, ...).
\<close>

datatype error =
    IndexError
  | ZeroDivisionError
  | TypeError
  | KeyboardInterrupt
  | ConnectionError
  | CalledProcessError
  | OtherException

text \<open>
  Times, energies and thresholds are Python numbers (\<^verbatim>\<open>int\<close> and \<^verbatim>\<open>float\<close>). They are
  modelled by exact real numbers: the control flow of the code is what the claims are about,
  and the rounding of binary floating point is outside this model.
\<close>

type_synonym number = real

text \<open>Python's \<^verbatim>\<open>xs[i]\<close> on a list: negative indices count from the end, anything
  outside \<^verbatim>\<open>-len(xs) .. len(xs)-1\<close> raises \<^verbatim>\<open>IndexError\<close>.\<close>

definition py_index :: "'a list \<Rightarrow> int \<Rightarrow> error + 'a" where
  "py_index xs i =
     (let n = int (length xs) in
      if 0 \<le> i \<and> i < n then Inr (xs ! nat i)
      else if - n \<le> i \<and> i < 0 then Inr (xs ! nat (i + n))
      else Inl IndexError)"

text \<open>Python's \<^verbatim>\<open>int(x)\<close> on a float: truncation towards zero.\<close>

definition py_int :: "number \<Rightarrow> int" where
  "py_int x = (if 0 \<le> x then \<lfloor>x\<rfloor> else \<lceil>x\<rceil>)"

section \<open>The silence threshold: \<^verbatim>\<open>percentile\<close>\<close>

text \<open>
  \<^verbatim>\<open>
  def percentile(arr, percent):
      arr = sorted(arr)
      k = (len(arr) - 1) * percent
      f = math.floor(k)
      c = math.ceil(k)
      if f == c: return arr[int(k)]
      d0 = arr[int(f)] * (c - k)
      d1 = arr[int(c)] * (k - f)
      return d0 + d1
  \<close>
\<close>

definition percentile :: "number list \<Rightarrow> number \<Rightarrow> error + number" where
  "percentile arr percent =
     (let arr = sort arr;
          k = of_int (int (length arr) - 1) * percent;
          f = \<lfloor>k\<rfloor>;
          c = \<lceil>k\<rceil>
      in if f = c then py_index arr (py_int k)
         else (case py_index arr f of
                 Inl e \<Rightarrow> Inl e
               | Inr a \<Rightarrow>
                  (case py_index arr c of
                     Inl e \<Rightarrow> Inl e
                   | Inr b \<Rightarrow> Inr (a * (of_int c - k) + b * (k - of_int f)))))"

section \<open>Region detection: \<^verbatim>\<open>find_speech_regions\<close>\<close>

text \<open>
  What \<^verbatim>\<open>wave.open(filename)\<close> gives the function: the sample rate, the number of
  sample frames, and, for the \<open>i\<close>-th chunk that \<^verbatim>\<open>reader.readframes(frame_width)\<close>
  returns, the integer that \<^verbatim>\<open>audioop.rms\<close> computes from it (the samples themselves and
  the library's root-mean-square are not part of the repository).
\<close>

record wave_reader =
  framerate :: nat
  nframes :: nat
  chunk_rms :: "nat \<Rightarrow> int"

type_synonym region = "number \<times> number"

text \<open>The variables of the sweep (lines 188--204).\<close>

record sweep_state =
  elapsed_time :: number
  regions :: "region list"
  region_start :: "number option"

text \<open>Python truthiness of \<^verbatim>\<open>region_start\<close>: \<^verbatim>\<open>None\<close> is false, and so is the
  number zero.\<close>

definition truthy :: "number option \<Rightarrow> bool" where
  "truthy r = (case r of None \<Rightarrow> False | Some t \<Rightarrow> t \<noteq> 0)"

text \<open>
  One iteration of the loop over \<^verbatim>\<open>energies\<close>:
  \<^verbatim>\<open>
      is_silence = energy <= threshold
      max_exceeded = region_start and elapsed_time - region_start >= max_region_size
      if (max_exceeded or is_silence) and region_start:
          if elapsed_time - region_start >= min_region_size:
              regions.append((region_start, elapsed_time))
              region_start = None
      elif (not region_start) and (not is_silence):
          region_start = elapsed_time
      elapsed_time += chunk_duration
  \<close>
  The subtractions are only evaluated where \<^verbatim>\<open>region_start\<close> is truthy, hence a number.
\<close>

definition sweep_step ::
  "number \<Rightarrow> number \<Rightarrow> number \<Rightarrow> number \<Rightarrow> sweep_state \<Rightarrow> int \<Rightarrow> sweep_state" where
  "sweep_step threshold chunk_duration min_region_size max_region_size s energy =
     (let is_silence = (of_int energy \<le> threshold);
          max_exceeded =
            (case region_start s of
               None \<Rightarrow> False
             | Some t \<Rightarrow> t \<noteq> 0 \<and> elapsed_time s - t \<ge> max_region_size);
          s' =
            (if (max_exceeded \<or> is_silence) \<and> truthy (region_start s) then
               (case region_start s of
                  None \<Rightarrow> s
                | Some t \<Rightarrow>
                    if elapsed_time s - t \<ge> min_region_size
                    then s\<lparr>regions := regions s @ [(t, elapsed_time s)],
                           region_start := None\<rparr>
                    else s)
             else if \<not> truthy (region_start s) \<and> \<not> is_silence then
               s\<lparr>region_start := Some (elapsed_time s)\<rparr>
             else s)
      in s'\<lparr>elapsed_time := elapsed_time s' + chunk_duration\<rparr>)"

definition sweep ::
  "number \<Rightarrow> number \<Rightarrow> number \<Rightarrow> number \<Rightarrow> sweep_state \<Rightarrow> int list \<Rightarrow> sweep_state" where
  "sweep threshold chunk_duration min_region_size max_region_size s energies =
     foldl (sweep_step threshold chunk_duration min_region_size max_region_size) s energies"

definition sweep_init :: sweep_state where
  "sweep_init = \<lparr>elapsed_time = 0, regions = [], region_start = None\<rparr>"

text \<open>
  \<^verbatim>\<open>find_speech_regions(filename, frame_width=4096, min_region_size=0.5, max_region_size=6)\<close>.
  The two divisions raise \<^verbatim>\<open>ZeroDivisionError\<close> on a zero divisor; the threshold is
  \<^verbatim>\<open>percentile(energies, 0.2)\<close>.
\<close>

definition read_energies :: "wave_reader \<Rightarrow> nat \<Rightarrow> int list" where
  "read_energies reader frame_width =
     (let n_chunks = nat \<lceil>(of_nat (nframes reader) :: real) / of_nat frame_width\<rceil>
      in map (chunk_rms reader) [0..<n_chunks])"

definition find_speech_regions ::
  "wave_reader \<Rightarrow> nat \<Rightarrow> number \<Rightarrow> number \<Rightarrow> error + region list" where
  "find_speech_regions reader frame_width min_region_size max_region_size =
     (if framerate reader = 0 then Inl ZeroDivisionError
      else if frame_width = 0 then Inl ZeroDivisionError
      else
        (let chunk_duration = of_nat frame_width / of_nat (framerate reader);
             energies = read_energies reader frame_width
         in case percentile (map of_int energies) (1 / 5) of
              Inl e \<Rightarrow> Inl e
            | Inr threshold \<Rightarrow>
                Inr (regions (sweep threshold chunk_duration min_region_size
                                max_region_size sweep_init energies))))"

section \<open>The percentile formula of the specification\<close>

text \<open>
  The specification describes the threshold as the standard percentile with linear
  interpolation between order statistics: for \<open>n\<close> values and the rank \<open>k = (n - 1) * p\<close>,
  the order statistic at \<open>k\<close> when \<open>k\<close> is integral, otherwise the value between the order
  statistics at \<open>\<lfloor>k\<rfloor>\<close> and \<open>\<lceil>k\<rceil>\<close> at the distance \<open>k - \<lfloor>k\<rfloor>\<close> from the lower one. The
  following two definitions follow these words, not the code; the \<open>i\<close>-th order statistic
  of a list exists for \<open>0 \<le> i < n\<close> only.
\<close>

definition order_statistic :: "number list \<Rightarrow> int \<Rightarrow> number option" where
  "order_statistic xs i =
     (if 0 \<le> i \<and> i < int (length xs) then Some (sort xs ! nat i) else None)"

definition interpolated_percentile :: "number list \<Rightarrow> number \<Rightarrow> number option" where
  "interpolated_percentile xs p =
     (let k = (of_nat (length xs) - 1) * p;
          f = \<lfloor>k\<rfloor>;
          c = \<lceil>k\<rceil>
      in if f = c then order_statistic xs f
         else (case (order_statistic xs f, order_statistic xs c) of
                 (Some a, Some b) \<Rightarrow> Some (a + (k - of_int f) * (b - a))
               | _ \<Rightarrow> None))"

section \<open>JSON values and the subscripts of the recognizer\<close>

text \<open>What \<^verbatim>\<open>json.loads\<close> returns: \<^verbatim>\<open>None\<close>, a bool, a number, a string, a list, or a dict,
  given by its items (the keys of a JSON object are strings).\<close>

datatype json =
    JNull
  | JBool bool
  | JNumber real
  | JString string
  | JArray "json list"
  | JObject "(string \<times> json) list"

text \<open>
  \<^verbatim>\<open>x['key']\<close> and \<^verbatim>\<open>x[0]\<close>. Each of them raises on most values (\<^verbatim>\<open>KeyError\<close>,
  \<^verbatim>\<open>IndexError\<close>, \<^verbatim>\<open>TypeError\<close>); the only place that uses them catches every
  exception alike, so that raising is the value \<open>None\<close> here.
\<close>

fun getitem_key :: "json \<Rightarrow> string \<Rightarrow> json option" where
  "getitem_key (JObject items) k = map_of items k"
| "getitem_key _ k = None"

fun getitem_0 :: "json \<Rightarrow> json option" where
  "getitem_0 (JArray []) = None"
| "getitem_0 (JArray (x # xs)) = Some x"
| "getitem_0 (JString []) = None"
| "getitem_0 (JString (c # cs)) = Some (JString [c])"
| "getitem_0 _ = None"

text \<open>Strings are lists of 8-bit characters; \<^verbatim>\<open>str.upper\<close> is modelled on them: the
  letters \<^verbatim>\<open>a\<close> to \<^verbatim>\<open>z\<close> go to \<^verbatim>\<open>A\<close> to \<^verbatim>\<open>Z\<close>, every other character stays.\<close>

definition upper_char :: "char \<Rightarrow> char" where
  "upper_char c =
     (case map_of (zip ''abcdefghijklmnopqrstuvwxyz'' ''ABCDEFGHIJKLMNOPQRSTUVWXYZ'') c of
        Some u \<Rightarrow> u
      | None \<Rightarrow> c)"

definition upper :: "string \<Rightarrow> string" where
  "upper s = map upper_char s"

text \<open>\<^verbatim>\<open>line[:1].upper() + line[1:]\<close>: defined on a string; a list has no \<^verbatim>\<open>upper\<close>, the
  other values cannot be sliced.\<close>

fun capitalize_first :: "json \<Rightarrow> string option" where
  "capitalize_first (JString s) = Some (upper (take 1 s) @ drop 1 s)"
| "capitalize_first _ = None"

section \<open>The recognizer: \<^verbatim>\<open>SpeechRecognizer.__call__\<close>\<close>

text \<open>
  \<^verbatim>\<open>
  def __call__(self, data):
      try:
          for i in range(self.retries):
              url = GOOGLE_SPEECH_API_URL.format(lang=self.language, key=self.api_key)
              headers = {'Content-Type': 'audio/x-flac; rate=%d' % self.rate}
              try:
                  resp = requests.post(url, data=data, headers=headers)
              except requests.exceptions.ConnectionError:
                  continue
              for line in resp.content.decode().split('\n'):
                  try:
                      line = json.loads(line)
                      line = line['result'][0]['alternative'][0]['transcript']
                      return line[:1].upper() + line[1:]
                  except:
                      # no result
                      continue
      except KeyboardInterrupt:
          return
  \<close>
  The body of the inner \<^verbatim>\<open>try\<close> for one parsed line: the subscripts, then the
  capitalized result.
\<close>

definition transcript_field :: "json \<Rightarrow> json option" where
  "transcript_field line =
     (case getitem_key line ''result'' of None \<Rightarrow> None | Some r \<Rightarrow>
      case getitem_0 r of None \<Rightarrow> None | Some r0 \<Rightarrow>
      case getitem_key r0 ''alternative'' of None \<Rightarrow> None | Some a \<Rightarrow>
      case getitem_0 a of None \<Rightarrow> None | Some a0 \<Rightarrow>
      getitem_key a0 ''transcript'')"

definition line_transcript :: "json \<Rightarrow> string option" where
  "line_transcript line =
     (case transcript_field line of None \<Rightarrow> None | Some t \<Rightarrow> capitalize_first t)"

text \<open>
  The lines of a response, each with what \<^verbatim>\<open>json.loads\<close> does on it: it raises (\<open>Inl\<close>: a
  decoding error, or a \<^verbatim>\<open>KeyboardInterrupt\<close> that arrives there) or returns a value. The
  bare \<^verbatim>\<open>except:\<close> catches whatever is raised in the inner \<^verbatim>\<open>try\<close> and goes on to the
  next line.
\<close>

type_synonym response = "(error + json) list"

fun scan_lines :: "response \<Rightarrow> string option" where
  "scan_lines [] = None"
| "scan_lines (Inl e # ls) = scan_lines ls"
| "scan_lines (Inr line # ls) =
     (case line_transcript line of Some t \<Rightarrow> Some t | None \<Rightarrow> scan_lines ls)"

record SpeechRecognizer =
  language :: string
  rate :: nat
  api_key :: string
  retries :: nat

text \<open>
  The loop over \<^verbatim>\<open>range(self.retries)\<close>. \<open>post i\<close> is what the \<open>i\<close>-th
  \<^verbatim>\<open>requests.post\<close> of this call does (with the decoding of its body): it raises, or it
  returns the lines of the response. The result comes with the number of requests made.
  After the last iteration the function ends without \<^verbatim>\<open>return\<close>, which returns \<^verbatim>\<open>None\<close>.
\<close>

fun retry_loop :: "(nat \<Rightarrow> error + response) \<Rightarrow> nat \<Rightarrow> nat \<Rightarrow> (error + string option) \<times> nat" where
  "retry_loop post 0 i = (Inr None, i)"
| "retry_loop post (Suc n) i =
     (case post i of
        Inl e \<Rightarrow>
          if e = ConnectionError then retry_loop post n (Suc i)
          else if e = KeyboardInterrupt then (Inr None, Suc i)
          else (Inl e, Suc i)
      | Inr lines \<Rightarrow>
          (case scan_lines lines of
             Some t \<Rightarrow> (Inr (Some t), Suc i)
           | None \<Rightarrow> retry_loop post n (Suc i)))"

definition SpeechRecognizer_call ::
  "SpeechRecognizer \<Rightarrow> (string option \<Rightarrow> nat \<Rightarrow> error + response) \<Rightarrow> string option
     \<Rightarrow> (error + string option) \<times> nat" where
  "SpeechRecognizer_call self post data = retry_loop (post data) (retries self) 0"

text \<open>An attempt after which the loop makes the next one: a connection error, or a
  response none of whose lines gives a transcript.\<close>

definition no_result :: "error + response \<Rightarrow> bool" where
  "no_result r = (case r of Inl e \<Rightarrow> e = ConnectionError | Inr lines \<Rightarrow> scan_lines lines = None)"

section \<open>The clip extractor: \<^verbatim>\<open>FLACConverter.__call__\<close>\<close>

text \<open>
  \<^verbatim>\<open>
  def __call__(self, region):
      try:
          start, end = region
          start = max(0, start - self.include_before)
          end += self.include_after
          temp = tempfile.NamedTemporaryFile(suffix='.flac')
          command = ['ffmpeg', '-ss', str(start), '-t', str(end - start),
                     '-y', '-i', self.source_path, '-loglevel', 'error', temp.name]
          use_shell = True if os.name == 'nt' else False
          subprocess.check_output(command, stdin=open(os.devnull), shell=use_shell)
          return temp.read()
      except KeyboardInterrupt:
          return
  \<close>
  \<open>ffmpeg path ss t\<close> is what the temporary file, the subprocess and the read do together
  for the arguments \<^verbatim>\<open>-i path -ss ss -t t\<close>: an exception (\<^verbatim>\<open>CalledProcessError\<close> on a
  non-zero exit) or the bytes of the clip.
\<close>

record FLACConverter =
  source_path :: string
  include_before :: number
  include_after :: number

definition FLACConverter_call ::
  "FLACConverter \<Rightarrow> (string \<Rightarrow> number \<Rightarrow> number \<Rightarrow> error + string) \<Rightarrow> region
     \<Rightarrow> error + string option" where
  "FLACConverter_call self ffmpeg region =
     (let start = max 0 (fst region - include_before self);
          stop = snd region + include_after self
      in case ffmpeg (source_path self) start (stop - start) of
           Inl e \<Rightarrow> if e = KeyboardInterrupt then Inr None else Inl e
         | Inr flac \<Rightarrow> Inr (Some flac))"

section \<open>The pipeline: \<^verbatim>\<open>generate_subtitles\<close>\<close>

text \<open>
  The world outside the program, as far as \<^verbatim>\<open>generate_subtitles\<close> meets it: the name
  that \<^verbatim>\<open>tempfile\<close> picks for the audio file, whether \<^verbatim>\<open>which('ffmpeg')\<close> finds the tool,
  what the three external calls do (the transcoding of the whole file, the extraction of a
  clip, the HTTP request of a given item of the recognition stage), what \<^verbatim>\<open>wave.open\<close>
  reads from the transcoded file, and the first component of \<^verbatim>\<open>os.path.splitext\<close>.
  \<open>FORMATTERS\<close> and \<open>GOOGLE_SPEECH_API_KEY\<close> are imported from modules of the repository
  (\<^verbatim>\<open>autosub.formatters\<close>, \<^verbatim>\<open>autosub.constants\<close>) and are parameters here.

  \<open>sigint\<close> is the interrupt of the main process: \<open>Some (stage, i)\<close> when
  \<^verbatim>\<open>KeyboardInterrupt\<close> is raised in \<^verbatim>\<open>generate_subtitles\<close> while it waits for result \<open>i\<close>
  of that stage, \<open>None\<close> when there is none. An interrupt that reaches a worker is an
  outcome \<open>Inl KeyboardInterrupt\<close> of the external call the worker is in.
\<close>

datatype stage = Converting | Recognizing

type_synonym files = "string \<rightharpoonup> string"

record environment =
  temp_wav :: string
  ffmpeg_found :: bool
  ffmpeg_wav :: "string \<Rightarrow> error + string"
  wave_open :: "string \<Rightarrow> error + wave_reader"
  ffmpeg_flac :: "string \<Rightarrow> number \<Rightarrow> number \<Rightarrow> error + string"
  requests_post :: "nat \<Rightarrow> string option \<Rightarrow> nat \<Rightarrow> error + response"
  sigint :: "(stage \<times> nat) option"
  FORMATTERS :: "string \<rightharpoonup> ((region \<times> string) list \<Rightarrow> string)"
  GOOGLE_SPEECH_API_KEY :: string
  splitext_base :: "string \<Rightarrow> string"

text \<open>
  \<^verbatim>\<open>
  def extract_audio(filename, channels=1, rate=16000):
      temp = tempfile.NamedTemporaryFile(suffix='.wav', delete=False)
      if not os.path.isfile(filename):
          raise Exception('Invalid filepath: {0}'.format(filename))
      if not which('ffmpeg'):
          raise Exception('Dependency not found: ffmpeg')
      command = [...]
      subprocess.check_output(command, stdin=open(os.devnull), shell=use_shell)
      return temp.name, rate
  \<close>
  The temporary file is created first and stays when an exception is raised.
\<close>

definition extract_audio :: "environment \<Rightarrow> files \<Rightarrow> string \<Rightarrow> (error + string \<times> nat) \<times> files" where
  "extract_audio env fs filename =
     (let temp = temp_wav env;
          fs1 = fs(temp \<mapsto> [])
      in if fs1 filename = None then (Inl OtherException, fs1)
         else if \<not> ffmpeg_found env then (Inl OtherException, fs1)
         else (case ffmpeg_wav env filename of
                 Inl e \<Rightarrow> (Inl e, fs1)
               | Inr wav \<Rightarrow> (Inr (temp, 16000), fs1(temp \<mapsto> wav))))"

text \<open>\<^verbatim>\<open>regions = find_speech_regions(audio_filename)\<close>, with the default arguments.\<close>

definition detect :: "environment \<Rightarrow> files \<Rightarrow> string \<Rightarrow> error + region list" where
  "detect env fs audio_filename =
     (case fs audio_filename of
        None \<Rightarrow> Inl OtherException
      | Some wav \<Rightarrow>
          (case wave_open env wav of
             Inl e \<Rightarrow> Inl e
           | Inr reader \<Rightarrow> find_speech_regions reader 4096 (1 / 2) 6))"

text \<open>
  One stage:
  \<^verbatim>\<open>
      for i, extracted_region in enumerate(pool.imap(converter, regions)):
          extracted_regions.append(extracted_region)
          pbar.update(i)
  \<close>
  \<^verbatim>\<open>pool.imap\<close> yields the results in the order of the items; an exception that a worker
  raised for an item is raised again in the main process when the iteration reaches that
  item. \<open>worker i x\<close> is the result of the worker on item \<open>x\<close>, the \<open>i\<close>-th one. The
  concurrency of the workers is not modelled.
\<close>

fun collect :: "nat option \<Rightarrow> (nat \<Rightarrow> 'a \<Rightarrow> error + 'b) \<Rightarrow> nat \<Rightarrow> 'a list \<Rightarrow> error + 'b list" where
  "collect interrupt worker i [] = Inr []"
| "collect interrupt worker i (x # xs) =
     (if interrupt = Some i then Inl KeyboardInterrupt
      else (case worker i x of
              Inl e \<Rightarrow> Inl e
            | Inr y \<Rightarrow>
                (case collect interrupt worker (Suc i) xs of
                   Inl e \<Rightarrow> Inl e
                 | Inr ys \<Rightarrow> Inr (y # ys))))"

definition stage_sigint :: "stage \<Rightarrow> (stage \<times> nat) option \<Rightarrow> nat option" where
  "stage_sigint st s = (case s of None \<Rightarrow> None | Some (st', i) \<Rightarrow> if st' = st then Some i else None)"

definition convert_stage :: "environment \<Rightarrow> FLACConverter \<Rightarrow> region list \<Rightarrow> error + string option list" where
  "convert_stage env converter rs =
     collect (stage_sigint Converting (sigint env))
       (\<lambda>i r. FLACConverter_call converter (ffmpeg_flac env) r) 0 rs"

definition recognize_stage ::
  "environment \<Rightarrow> SpeechRecognizer \<Rightarrow> string option list \<Rightarrow> error + string option list" where
  "recognize_stage env recognizer clips =
     collect (stage_sigint Recognizing (sigint env))
       (\<lambda>i data. fst (SpeechRecognizer_call recognizer (requests_post env i) data)) 0 clips"

text \<open>
  Lines 263--287: nothing is done for an empty region list; the handler of
  \<^verbatim>\<open>KeyboardInterrupt\<close> tears the pool down and raises the exception again, every other
  exception leaves the function directly. The second component is the number of clips
  handed to the recognition stage.
\<close>

definition run_stages ::
  "environment \<Rightarrow> FLACConverter \<Rightarrow> SpeechRecognizer \<Rightarrow> region list
     \<Rightarrow> (error + string option list) \<times> nat" where
  "run_stages env converter recognizer rs =
     (if rs = [] then (Inr [], 0)
      else (case convert_stage env converter rs of
              Inl e \<Rightarrow> (Inl e, 0)
            | Inr extracted_regions \<Rightarrow>
                (recognize_stage env recognizer extracted_regions, length extracted_regions)))"

text \<open>\<^verbatim>\<open>[(r, t) for r, t in zip(regions, transcripts) if t]\<close>: \<^verbatim>\<open>None\<close> and the empty
  string are falsy.\<close>

definition timed_subtitles :: "region list \<Rightarrow> string option list \<Rightarrow> (region \<times> string) list" where
  "timed_subtitles rs transcripts =
     concat (map (\<lambda>(r, t). case t of None \<Rightarrow> [] | Some s \<Rightarrow> if s = [] then [] else [(r, s)])
                 (zip rs transcripts))"

text \<open>Lines 289--304: format, write the destination, remove the audio file.\<close>

definition write_subtitles ::
  "environment \<Rightarrow> files \<Rightarrow> string \<Rightarrow> string \<Rightarrow> string option \<Rightarrow> string \<Rightarrow> region list
     \<Rightarrow> string option list \<Rightarrow> (error + string) \<times> files" where
  "write_subtitles env fs src_path subtitle_file_format output audio_filename rs transcripts =
     (case FORMATTERS env subtitle_file_format of
        None \<Rightarrow> (Inl TypeError, fs)
      | Some formatter \<Rightarrow>
          (let formatted_subtitles = formatter (timed_subtitles rs transcripts);
               default_dest = splitext_base env src_path @ ''.'' @ subtitle_file_format;
               dest = (case output of
                         None \<Rightarrow> default_dest
                       | Some p \<Rightarrow> if p = [] then default_dest else p);
               fs2 = fs(dest \<mapsto> formatted_subtitles)
           in if fs2 audio_filename = None then (Inl OtherException, fs2)
              else (Inr dest, fs2(audio_filename := None))))"

text \<open>The outcome of a run: the returned destination or the exception raised, the files
  afterwards, and the number of clips handed to the recognition stage.\<close>

record run =
  outcome :: "error + string"
  files_after :: files
  recognizer_tasks :: nat

text \<open>
  \<^verbatim>\<open>generate_subtitles(source_path, concurrency, src_language, subtitle_file_format, output)\<close>.
  \<^verbatim>\<open>multiprocessing.Pool(concurrency)\<close> raises \<^verbatim>\<open>ValueError\<close> for fewer than one process.
\<close>

definition generate_subtitles ::
  "environment \<Rightarrow> files \<Rightarrow> string \<Rightarrow> int \<Rightarrow> string \<Rightarrow> string \<Rightarrow> string option \<Rightarrow> run" where
  "generate_subtitles env fs src_path concurrency src_language subtitle_file_format output =
     (case extract_audio env fs src_path of
        (Inl e, fs1) \<Rightarrow> \<lparr>outcome = Inl e, files_after = fs1, recognizer_tasks = 0\<rparr>
      | (Inr (audio_filename, audio_rate), fs1) \<Rightarrow>
          (case detect env fs1 audio_filename of
             Inl e \<Rightarrow> \<lparr>outcome = Inl e, files_after = fs1, recognizer_tasks = 0\<rparr>
           | Inr rs \<Rightarrow>
               if concurrency < 1
               then \<lparr>outcome = Inl OtherException, files_after = fs1, recognizer_tasks = 0\<rparr>
               else
                 (let converter = \<lparr>source_path = audio_filename, include_before = 1 / 4,
                                   include_after = 1 / 4\<rparr>;
                      recognizer = \<lparr>language = src_language, rate = audio_rate,
                                    api_key = GOOGLE_SPEECH_API_KEY env, retries = 3\<rparr>
                  in case run_stages env converter recognizer rs of
                       (Inl e, n) \<Rightarrow> \<lparr>outcome = Inl e, files_after = fs1, recognizer_tasks = n\<rparr>
                     | (Inr transcripts, n) \<Rightarrow>
                         (case write_subtitles env fs1 src_path subtitle_file_format output
                                 audio_filename rs transcripts of
                            (r, fs2) \<Rightarrow>
                              \<lparr>outcome = r, files_after = fs2, recognizer_tasks = n\<rparr>))))"

section \<open>Example inputs\<close>

text \<open>
  The inputs on which the pipeline is run below. A 16 kHz recording of nine chunks, the
  chunks 1--3 and 5--7 loud: the detector finds the regions (0.256, 1.024) and
  (1.28, 2.048), and the clips are asked for with \<^verbatim>\<open>-ss 0.006 -t 1.268\<close> and
  \<^verbatim>\<open>-ss 1.03 -t 1.268\<close>.
\<close>

definition two_bursts :: wave_reader where
  "two_bursts =
     \<lparr>framerate = 16000, nframes = 36864,
      chunk_rms = (\<lambda>i. if (1 \<le> i \<and> i < 4) \<or> (5 \<le> i \<and> i < 8) then 100 else 0)\<rparr>"

definition hello_record :: json where
  "hello_record =
     JObject [(''result'', JArray [JObject [(''alternative'',
                 JArray [JObject [(''transcript'', JString ''hello'')]])]])]"

text \<open>
  A machine with \<^verbatim>\<open>ffmpeg\<close>, a service that answers every request with the transcript
  \<^verbatim>\<open>hello\<close>, and the formatter \<^verbatim>\<open>srt\<close> (here: the transcripts, one per line); what the
  clip extraction does for a given \<^verbatim>\<open>-ss\<close> and the interrupt of the main process are
  left open.
\<close>

definition example_world :: "(number \<Rightarrow> error + string) \<Rightarrow> (stage \<times> nat) option \<Rightarrow> environment" where
  "example_world clip interrupt =
     \<lparr>temp_wav = ''/tmp/tmp0.wav'',
      ffmpeg_found = True,
      ffmpeg_wav = (\<lambda>path. Inr ''RIFF''),
      wave_open = (\<lambda>wav. Inr two_bursts),
      ffmpeg_flac = (\<lambda>path ss t. clip ss),
      requests_post = (\<lambda>item data attempt. Inr [Inr hello_record]),
      sigint = interrupt,
      FORMATTERS = [''srt'' \<mapsto> (\<lambda>subs. concat (map (\<lambda>(r, t). t @ [CHR 0x0A]) subs))],
      GOOGLE_SPEECH_API_KEY = ''key'',
      splitext_base = takeWhile (\<lambda>c. c \<noteq> CHR ''.'')\<rparr>"

definition example_files :: files where
  "example_files = [''talk.mp4'' \<mapsto> ''media'']"

section \<open>Evaluation lemmas for the detector\<close>

lemma py_index_Nil: "py_index [] i = Inl IndexError"
  by (simp add: py_index_def)

lemma percentile_Nil: "percentile [] percent = Inl IndexError"
  by (simp add: percentile_def Let_def py_index_Nil)

lemma read_energies_no_frames: "nframes reader = 0 \<Longrightarrow> read_energies reader frame_width = []"
  by (simp add: read_energies_def)

lemma sweep_step_eval:
  "sweep_step th d mn mx \<lparr>elapsed_time = e, regions = rs, region_start = r\<rparr> en =
     (if ((case r of None \<Rightarrow> False | Some t \<Rightarrow> t \<noteq> 0 \<and> mx \<le> e - t) \<or> of_int en \<le> th)
          \<and> truthy r
      then (case r of
              None \<Rightarrow> \<lparr>elapsed_time = e + d, regions = rs, region_start = r\<rparr>
            | Some t \<Rightarrow>
                if mn \<le> e - t
                then \<lparr>elapsed_time = e + d, regions = rs @ [(t, e)], region_start = None\<rparr>
                else \<lparr>elapsed_time = e + d, regions = rs, region_start = r\<rparr>)
      else if \<not> truthy r \<and> \<not> of_int en \<le> th
           then \<lparr>elapsed_time = e + d, regions = rs, region_start = Some e\<rparr>
           else \<lparr>elapsed_time = e + d, regions = rs, region_start = r\<rparr>)"
  by (simp add: sweep_step_def Let_def split: option.splits)

section \<open>The empty stream\<close>

text \<open>
  Claim C4 says that on the empty PCM stream (no sample frames, so no chunk is read and
  \<^verbatim>\<open>energies\<close> is empty) \<^verbatim>\<open>find_speech_regions\<close> returns the empty region list and the
  threshold computation does not fault. The code does fault: \<^verbatim>\<open>percentile([], 0.2)\<close> has
  \<^verbatim>\<open>k = -0.2\<close>, \<^verbatim>\<open>f = -1\<close>, \<^verbatim>\<open>c = 0\<close>, and \<^verbatim>\<open>arr[int(f)]\<close> on the empty list raises
  \<^verbatim>\<open>IndexError\<close>, for every percentile rank; with the default arguments and a 16 kHz
  file of zero frames the whole function ends in that error.
\<close>

theorem find_speech_regions_empty_stream:
  "percentile [] percent = Inl IndexError \<and>
   find_speech_regions \<lparr>framerate = 16000, nframes = 0, chunk_rms = (\<lambda>_. 0)\<rparr> 4096 (1 / 2) 6
     = Inl IndexError"
  by (simp add: percentile_Nil find_speech_regions_def read_energies_no_frames)

section \<open>The threshold is the interpolated percentile\<close>

lemma sort_mset_cong: "mset xs = mset ys \<Longrightarrow> sort xs = sort (ys :: number list)"
  by (rule properties_for_sort) simp_all

lemma percentile_reorder:
  assumes "mset xs = mset ys"
  shows "percentile xs p = percentile ys p"
proof -
  have "sort xs = sort ys" using assms by (rule sort_mset_cong)
  then show ?thesis by (simp add: percentile_def)
qed

lemma rank_bounds:
  fixes n :: nat
  assumes "0 < n"
  defines "k \<equiv> (of_nat n - 1) * (1 / 5 :: real)"
  shows "0 \<le> \<lfloor>k\<rfloor>" and "\<lceil>k\<rceil> < int n" and "0 \<le> k" and "\<lfloor>k\<rfloor> < int n" and "0 \<le> \<lceil>k\<rceil>"
proof -
  show k0: "0 \<le> k" using assms by (simp add: k_def)
  then show "0 \<le> \<lfloor>k\<rfloor>" by simp
  have "k \<le> of_int (int n - 1)" using assms by (simp add: k_def)
  then have "\<lceil>k\<rceil> \<le> int n - 1" by (simp only: ceiling_le_iff)
  then show c: "\<lceil>k\<rceil> < int n" by simp
  have fc: "\<lfloor>k\<rfloor> \<le> \<lceil>k\<rceil>" by (rule floor_le_ceiling)
  with c show "\<lfloor>k\<rfloor> < int n" by linarith
  from k0 show "0 \<le> \<lceil>k\<rceil>" by simp
qed

lemma ceiling_is_floor_plus_one:
  fixes k :: real
  assumes "\<lfloor>k\<rfloor> \<noteq> \<lceil>k\<rceil>"
  shows "of_int \<lceil>k\<rceil> - k = 1 - (k - of_int \<lfloor>k\<rfloor>)"
proof -
  have "\<lceil>k\<rceil> = \<lfloor>k\<rfloor> + 1" using assms by (metis ceiling_altdef of_int_floor_cancel)
  then show ?thesis by simp
qed

lemma percentile_is_interpolation:
  "percentile xs (1 / 5) =
     (case interpolated_percentile xs (1 / 5) of None \<Rightarrow> Inl IndexError | Some v \<Rightarrow> Inr v)"
proof (cases "xs = []")
  case True
  then show ?thesis
    by (simp add: percentile_Nil interpolated_percentile_def order_statistic_def Let_def)
next
  case False
  define n where "n = length xs"
  define k where "k = (of_nat n - 1) * (1 / 5 :: real)"
  have n: "0 < n" using False by (simp add: n_def)
  note b = rank_bounds[OF n, folded k_def]
  have k': "of_int (int (length (sort xs)) - 1) * (1 / 5 :: real) = k"
    by (simp add: k_def n_def)
  have f: "py_index (sort xs) \<lfloor>k\<rfloor> = Inr (sort xs ! nat \<lfloor>k\<rfloor>)"
    using b by (simp add: py_index_def Let_def n_def)
  have c: "py_index (sort xs) \<lceil>k\<rceil> = Inr (sort xs ! nat \<lceil>k\<rceil>)"
    using b by (simp add: py_index_def Let_def n_def)
  have osf: "order_statistic xs \<lfloor>k\<rfloor> = Some (sort xs ! nat \<lfloor>k\<rfloor>)"
    using b by (simp add: order_statistic_def n_def)
  have osc: "order_statistic xs \<lceil>k\<rceil> = Some (sort xs ! nat \<lceil>k\<rceil>)"
    using b by (simp add: order_statistic_def n_def)
  have pi: "py_int k = \<lfloor>k\<rfloor>" using b by (simp add: py_int_def)
  have lhs: "percentile xs (1 / 5) =
      (if \<lfloor>k\<rfloor> = \<lceil>k\<rceil> then Inr (sort xs ! nat \<lfloor>k\<rfloor>)
       else Inr (sort xs ! nat \<lfloor>k\<rfloor> * (of_int \<lceil>k\<rceil> - k) + sort xs ! nat \<lceil>k\<rceil> * (k - of_int \<lfloor>k\<rfloor>)))"
    unfolding percentile_def Let_def k' by (simp add: f c pi)
  have rhs: "interpolated_percentile xs (1 / 5) =
      (if \<lfloor>k\<rfloor> = \<lceil>k\<rceil> then Some (sort xs ! nat \<lfloor>k\<rfloor>)
       else Some (sort xs ! nat \<lfloor>k\<rfloor> + (k - of_int \<lfloor>k\<rfloor>) * (sort xs ! nat \<lceil>k\<rceil> - sort xs ! nat \<lfloor>k\<rfloor>)))"
    unfolding interpolated_percentile_def Let_def n_def[symmetric] k_def[symmetric]
    by (simp add: osf osc)
  show ?thesis
  proof (cases "\<lfloor>k\<rfloor> = \<lceil>k\<rceil>")
    case True
    then show ?thesis by (simp add: lhs rhs)
  next
    case False
    from ceiling_is_floor_plus_one[OF False] show ?thesis
      using False by (simp add: lhs rhs algebra_simps)
  qed
qed

text \<open>
  Claim C9: for every list of frame energies, \<^verbatim>\<open>percentile(energies, 0.2)\<close> is the value of
  the standard linear-interpolation percentile formula (both are undefined on the empty
  list, where the code raises \<^verbatim>\<open>IndexError\<close>), and the result is the same for every
  reordering of the list.
\<close>

theorem percentile_matches_interpolation_formula:
  "percentile energies (1 / 5) =
     (case interpolated_percentile energies (1 / 5) of
        None \<Rightarrow> Inl IndexError
      | Some v \<Rightarrow> Inr v)
   \<and> (mset energies' = mset energies \<longrightarrow>
        percentile energies' (1 / 5) = percentile energies (1 / 5))"
  using percentile_is_interpolation percentile_reorder by blast

text \<open>The energies 3, 1, 2: rank \<open>2/5\<close>, between the order statistics 1 and 2.\<close>

theorem percentile_matches_interpolation_formula_witness:
  "percentile [3, 1, 2] (1 / 5) = Inr (7 / 5) \<and>
   percentile [1, 2, 3] (1 / 5) = percentile [3, 1, 2] (1 / 5)"
  using percentile_matches_interpolation_formula [of "[3, 1, 2]" "[1, 2, 3]"]
  by (simp add: interpolated_percentile_def order_statistic_def Let_def)

section \<open>Invariants of the sweep\<close>

lemma sweep_Nil: "sweep th d mn mx s [] = s"
  by (simp add: sweep_def)

lemma sweep_Cons: "sweep th d mn mx s (en # es) = sweep th d mn mx (sweep_step th d mn mx s en) es"
  by (simp add: sweep_def)

lemma sweep_append: "sweep th d mn mx s (es @ fs) = sweep th d mn mx (sweep th d mn mx s es) fs"
  by (simp add: sweep_def)








lemma sweep_silent_closed:
  assumes "\<not> truthy (region_start s)" and "\<forall>en \<in> set es. of_int en \<le> th"
  shows "sweep th d mn mx s es = s\<lparr>elapsed_time := elapsed_time s + of_nat (length es) * d\<rparr>"
  using assms
proof (induction es arbitrary: s)
  case Nil
  then show ?case by (simp add: sweep_Nil)
next
  case (Cons en es)
  have step: "sweep_step th d mn mx s en = s\<lparr>elapsed_time := elapsed_time s + d\<rparr>"
    using Cons.prems by (simp add: sweep_step_def Let_def truthy_def split: option.splits)
  have "\<not> truthy (region_start (s\<lparr>elapsed_time := elapsed_time s + d\<rparr>))"
    using Cons.prems(1) by simp
  from Cons.IH[OF this] Cons.prems(2) show ?case
    unfolding sweep_Cons step by (simp add: algebra_simps)
qed

lemma sweep_loud_open:
  assumes "region_start s = Some t" and "t \<noteq> 0"
    and "\<forall>en \<in> set es. \<not> of_int en \<le> th"
    and "0 \<le> d"
    and "elapsed_time s + of_nat (length es) * d - t < mx + d"
  shows "sweep th d mn mx s es = s\<lparr>elapsed_time := elapsed_time s + of_nat (length es) * d\<rparr>"
  using assms
proof (induction es arbitrary: s)
  case Nil
  then show ?case by (simp add: sweep_Nil)
next
  case (Cons en es)
  have "0 \<le> of_nat (length es) * d" using Cons.prems(4) by simp
  with Cons.prems(5) have below: "elapsed_time s - t < mx" by (simp add: algebra_simps)
  have step: "sweep_step th d mn mx s en = s\<lparr>elapsed_time := elapsed_time s + d\<rparr>"
    using Cons.prems(1-3) below by (simp add: sweep_step_def Let_def truthy_def)
  have "sweep th d mn mx (s\<lparr>elapsed_time := elapsed_time s + d\<rparr>) es =
        s\<lparr>elapsed_time := elapsed_time s + d\<rparr>
          \<lparr>elapsed_time := elapsed_time (s\<lparr>elapsed_time := elapsed_time s + d\<rparr>) + of_nat (length es) * d\<rparr>"
    using Cons.prems by (intro Cons.IH) (simp_all add: algebra_simps)
  then show ?case unfolding sweep_Cons step by (simp add: algebra_simps)
qed

lemma sweep_single_run:
  assumes d: "0 < d"
    and pre: "pre \<noteq> []" "\<forall>en \<in> set pre. of_int en \<le> th"
    and run: "run \<noteq> []" "\<forall>en \<in> set run. \<not> of_int en \<le> th"
    and post: "post \<noteq> []" "\<forall>en \<in> set post. of_int en \<le> th"
    and dur: "mn \<le> of_nat (length run) * d" "of_nat (length run) * d < mx"
  shows "regions (sweep th d mn mx sweep_init (pre @ run @ post)) =
           [(of_nat (length pre) * d, of_nat (length pre + length run) * d)]"
proof -
  define t0 where "t0 = of_nat (length pre) * d"
  define t1 where "t1 = of_nat (length pre + length run) * d"
  have t0: "t0 \<noteq> 0" using d pre(1) by (simp add: t0_def)
  have t10: "t1 - t0 = of_nat (length run) * d" by (simp add: t0_def t1_def algebra_simps)
  obtain r rs where r: "run = r # rs" using run(1) by (cases run) auto
  obtain p ps where p: "post = p # ps" using post(1) by (cases post) auto
  have s1: "sweep th d mn mx sweep_init pre = \<lparr>elapsed_time = t0, regions = [], region_start = None\<rparr>"
    using sweep_silent_closed[of sweep_init pre th d mn mx] pre(2)
    by (simp add: sweep_init_def truthy_def t0_def)
  have s2: "sweep_step th d mn mx \<lparr>elapsed_time = t0, regions = [], region_start = None\<rparr> r
             = \<lparr>elapsed_time = t0 + d, regions = [], region_start = Some t0\<rparr>"
    using run(2) by (simp add: sweep_step_eval truthy_def r)
  have len: "of_nat (length run) * d = d + of_nat (length rs) * d" by (simp add: r algebra_simps)
  have s3: "sweep th d mn mx \<lparr>elapsed_time = t0 + d, regions = [], region_start = Some t0\<rparr> rs
             = \<lparr>elapsed_time = t1, regions = [], region_start = Some t0\<rparr>"
    using sweep_loud_open[of "\<lparr>elapsed_time = t0 + d, regions = [], region_start = Some t0\<rparr>" t0 rs th d mx mn]
      t0 run(2) d dur(2) t10
    by (simp add: r len algebra_simps)
  have s4: "sweep_step th d mn mx \<lparr>elapsed_time = t1, regions = [], region_start = Some t0\<rparr> p
             = \<lparr>elapsed_time = t1 + d, regions = [(t0, t1)], region_start = None\<rparr>"
    using post(2) t0 dur(1) t10 by (simp add: sweep_step_eval truthy_def p)
  have s5: "regions (sweep th d mn mx \<lparr>elapsed_time = t1 + d, regions = [(t0, t1)], region_start = None\<rparr> ps)
             = [(t0, t1)]"
    using sweep_silent_closed[of "\<lparr>elapsed_time = t1 + d, regions = [(t0, t1)], region_start = None\<rparr>" ps th d mn mx]
      post(2) by (simp add: truthy_def p)
  have "regions (sweep th d mn mx sweep_init (pre @ run @ post)) = [(t0, t1)]"
    unfolding r p sweep_append sweep_Cons s1 s2 s3 s4 by (rule s5)
  then show ?thesis by (simp only: t0_def t1_def)
qed

section \<open>Concrete runs of the detector\<close>

text \<open>
  All runs below use the rate that \<^verbatim>\<open>extract_audio\<close> asks for, 16000 Hz, and the default
  arguments \<^verbatim>\<open>frame_width=4096\<close>, \<^verbatim>\<open>min_region_size=0.5\<close>, \<^verbatim>\<open>max_region_size=6\<close>: a chunk
  lasts \<open>4096/16000 = 32/125\<close> seconds (0.256 s).
\<close>

lemmas sweep_eval = sweep_def sweep_init_def sweep_step_eval truthy_def
lemmas percentile_eval = percentile_def py_index_def py_int_def Let_def

subsection \<open>A run shorter than \<^verbatim>\<open>min_region_size\<close>\<close>







subsection \<open>A single run\<close>

lemma onset_energies:
  "read_energies \<lparr>framerate = 16000, nframes = 20480,
      chunk_rms = (\<lambda>i. if i < 3 then 100 else 0)\<rparr> 4096 = [100, 100, 100, 0, 0]"
  by (simp add: read_energies_def upt_rec)

lemma onset_threshold: "percentile (map of_int [100, 100, 100, 0, 0]) (1 / 5) = Inr 0"
  by (simp add: percentile_eval)

lemma onset_sweep:
  "regions (sweep 0 (32 / 125) (1 / 2) 6 sweep_init [100, 100, 100, 0, 0]) = [(32 / 125, 96 / 125)]"
  by (simp add: sweep_eval)

text \<open>
  Claim C5 says that for one contiguous non-silent run from \<open>t0\<close> to \<open>t1\<close> with
  \<^verbatim>\<open>min_region_size\<close> \<open>\<le> t1 - t0 <\<close> \<^verbatim>\<open>max_region_size\<close>, the case \<open>t0 = 0\<close> included,
  the result is exactly \<open>[(t0, t1)]\<close>. The code tests the open-region marker by truthiness
  (\<^verbatim>\<open>if ... and region_start\<close>, \<^verbatim>\<open>not region_start\<close>), and a region opened at elapsed time 0
  has the falsy start 0: the next non-silent frame opens the region again, one chunk later.
  Energies 100, 100, 100, 0, 0 (threshold 0): the run lasts from 0 to 0.768 s, and the code
  returns (0.256, 0.768) instead of (0, 0.768).
\<close>

theorem run_from_time_zero_loses_first_frame:
  "read_energies \<lparr>framerate = 16000, nframes = 20480,
      chunk_rms = (\<lambda>i. if i < 3 then 100 else 0)\<rparr> 4096 = [100, 100, 100, 0, 0]
   \<and> percentile (map of_int [100, 100, 100, 0, 0]) (1 / 5) = Inr 0
   \<and> find_speech_regions \<lparr>framerate = 16000, nframes = 20480,
        chunk_rms = (\<lambda>i. if i < 3 then 100 else 0)\<rparr> 4096 (1 / 2) 6
       = Inr [(32 / 125, 96 / 125)]
   \<and> find_speech_regions \<lparr>framerate = 16000, nframes = 20480,
        chunk_rms = (\<lambda>i. if i < 3 then 100 else 0)\<rparr> 4096 (1 / 2) 6
       \<noteq> Inr [(0, 96 / 125)]"
  using onset_energies onset_threshold onset_sweep
  by (simp add: find_speech_regions_def)

text \<open>
  For a run that starts after at least one silent chunk and is followed by at least one
  silent chunk, the code does return exactly \<open>[(t0, t1)]\<close>.
\<close>

lemma single_run_detected:
  assumes "framerate reader \<noteq> 0" and "frame_width \<noteq> 0"
    and "read_energies reader frame_width = pre @ run @ post"
    and "percentile (map of_int (pre @ run @ post)) (1 / 5) = Inr threshold"
    and "pre \<noteq> []" and "\<forall>en \<in> set pre. of_int en \<le> threshold"
    and "run \<noteq> []" and "\<forall>en \<in> set run. \<not> of_int en \<le> threshold"
    and "post \<noteq> []" and "\<forall>en \<in> set post. of_int en \<le> threshold"
    and "chunk_duration = of_nat frame_width / of_nat (framerate reader)"
    and "t0 = of_nat (length pre) * chunk_duration"
    and "t1 = of_nat (length pre + length run) * chunk_duration"
    and "min_region_size \<le> t1 - t0" and "t1 - t0 < max_region_size"
  shows "find_speech_regions reader frame_width min_region_size max_region_size = Inr [(t0, t1)]"
proof -
  have d: "0 < chunk_duration" using assms(1,2,11) by simp
  have dur: "t1 - t0 = of_nat (length run) * chunk_duration"
    using assms(12,13) by (simp add: algebra_simps)
  have "regions (sweep threshold chunk_duration min_region_size max_region_size sweep_init
                   (pre @ run @ post)) = [(t0, t1)]"
    unfolding assms(12,13)
    using d assms(5-10) assms(14,15)[unfolded dur] by (rule sweep_single_run)
  then show ?thesis
    using assms(1-4) by (simp add: find_speech_regions_def Let_def assms(11)[symmetric] del: map_append)
qed

lemma mid_energies:
  "read_energies \<lparr>framerate = 16000, nframes = 24576,
      chunk_rms = (\<lambda>i. if 1 \<le> i \<and> i < 4 then 100 else 0)\<rparr> 4096 = [0, 100, 100, 100, 0, 0]"
  by (simp add: read_energies_def upt_rec)

lemma mid_threshold: "percentile (map of_int ([0] @ [100, 100, 100] @ [0, 0])) (1 / 5) = Inr 0"
  by (simp add: percentile_eval)

lemma single_run_detected_example:
  "find_speech_regions \<lparr>framerate = 16000, nframes = 24576,
      chunk_rms = (\<lambda>i. if 1 \<le> i \<and> i < 4 then 100 else 0)\<rparr> 4096 (1 / 2) 6
    = Inr [(32 / 125, 128 / 125)]"
  using single_run_detected
    [of "\<lparr>framerate = 16000, nframes = 24576, chunk_rms = (\<lambda>i. if 1 \<le> i \<and> i < 4 then 100 else 0)\<rparr>"
        4096 "[0]" "[100, 100, 100]" "[0, 0]" 0 "32 / 125" "32 / 125" "128 / 125" "1 / 2" 6]
    mid_energies mid_threshold
  by simp

subsection \<open>A run longer than \<^verbatim>\<open>max_region_size\<close>\<close>










section \<open>The retry loop and the stages\<close>


lemma retry_loop_skip:
  "\<forall>j<i. no_result (post (k + j)) \<Longrightarrow> i \<le> n \<Longrightarrow>
   retry_loop post n k = retry_loop post (n - i) (k + i)"
proof (induction i arbitrary: n k)
  case 0
  then show ?case by simp
next
  case (Suc i)
  then obtain m where n: "n = Suc m" by (cases n) auto
  from Suc.prems(1) have "no_result (post (k + 0))" by blast
  then have step: "retry_loop post (Suc m) k = retry_loop post m (Suc k)"
    by (auto simp: no_result_def split: sum.splits)
  have "\<forall>j<i. no_result (post (Suc k + j))" using Suc.prems(1) by auto
  from Suc.IH[OF this, of m] Suc.prems(2) n
  have "retry_loop post m (Suc k) = retry_loop post (m - i) (Suc k + i)" by simp
  then show ?case unfolding n step by simp
qed



lemma retry_loop_no_interrupt: "fst (retry_loop post n i) \<noteq> Inl KeyboardInterrupt"
  by (induction post n i rule: retry_loop.induct) (auto split: sum.splits option.splits)

lemma FLACConverter_call_no_interrupt:
  "FLACConverter_call self ffmpeg region \<noteq> Inl KeyboardInterrupt"
  by (simp add: FLACConverter_call_def Let_def split: sum.splits)

lemma collect_aligned:
  "collect interrupt worker k xs = Inr ys \<Longrightarrow>
   length ys = length xs \<and> (\<forall>i<length xs. worker (k + i) (xs ! i) = Inr (ys ! i))"
proof (induction xs arbitrary: k ys)
  case Nil
  then show ?case by simp
next
  case (Cons x xs)
  from Cons.prems obtain y ys' where y: "worker k x = Inr y"
    and ys': "collect interrupt worker (Suc k) xs = Inr ys'" and ys: "ys = y # ys'"
    by (auto split: sum.splits if_splits)
  from Cons.IH[OF ys'] have len: "length ys' = length xs"
    and al: "\<forall>i<length xs. worker (Suc k + i) (xs ! i) = Inr (ys' ! i)" by auto
  show ?case
  proof (intro conjI allI impI)
    show "length ys = length (x # xs)" by (simp add: ys len)
    fix i assume "i < length (x # xs)"
    then show "worker (k + i) ((x # xs) ! i) = Inr (ys ! i)"
      using y al by (cases i) (auto simp: ys)
  qed
qed

lemma collect_interrupted:
  "i < length xs \<Longrightarrow> \<not> isl (collect None worker k (take i xs)) \<Longrightarrow>
   collect (Some (k + i)) worker k xs = Inl KeyboardInterrupt"
proof (induction xs arbitrary: k i)
  case Nil
  then show ?case by simp
next
  case (Cons x xs)
  show ?case
  proof (cases i)
    case 0
    then show ?thesis by simp
  next
    case (Suc j)
    with Cons.prems obtain y where y: "worker k x = Inr y"
      and rest: "\<not> isl (collect None worker (Suc k) (take j xs))"
      by (auto split: sum.splits)
    from Cons.prems(1) Suc have "j < length xs" by simp
    from Cons.IH[OF this rest] show ?thesis using y Suc by simp
  qed
qed

lemma collect_worker_error:
  "i < length xs \<Longrightarrow> \<not> isl (collect None worker k (take i xs)) \<Longrightarrow>
   worker (k + i) (xs ! i) = Inl e \<Longrightarrow> collect None worker k xs = Inl e"
proof (induction xs arbitrary: k i)
  case Nil
  then show ?case by simp
next
  case (Cons x xs)
  show ?case
  proof (cases i)
    case 0
    with Cons.prems show ?thesis by simp
  next
    case (Suc j)
    with Cons.prems obtain y where y: "worker k x = Inr y"
      and rest: "\<not> isl (collect None worker (Suc k) (take j xs))"
      by (auto split: sum.splits)
    from Cons.prems(1) Suc have j: "j < length xs" by simp
    from Cons.prems(3) Suc have "worker (Suc k + j) (xs ! j) = Inl e" by simp
    from Cons.IH[OF j rest this] show ?thesis using y by simp
  qed
qed

lemma collect_no_interrupt:
  assumes "\<And>i x. worker i x \<noteq> Inl KeyboardInterrupt"
  shows "collect None worker k xs \<noteq> Inl KeyboardInterrupt"
proof (induction xs arbitrary: k)
  case Nil
  then show ?case by simp
next
  case (Cons x xs)
  show ?case using assms[of k x] Cons.IH[of "Suc k"] by (auto split: sum.splits)
qed

section \<open>The recognizer on a response\<close>








section \<open>Failures and interrupts in the pipeline\<close>

lemma extract_audio_files:
  assumes "extract_audio env fs filename = (r, fs1)" and "p \<noteq> temp_wav env"
  shows "fs1 p = fs p"
  using assms by (auto simp: extract_audio_def Let_def split: if_splits sum.splits)

lemma convert_stage_no_sigint:
  "convert_stage (env\<lparr>sigint := None\<rparr>) converter rs =
     collect None (\<lambda>i r. FLACConverter_call converter (ffmpeg_flac env) r) 0 rs"
  by (simp add: convert_stage_def stage_sigint_def)

lemma recognize_stage_no_sigint:
  "recognize_stage (env\<lparr>sigint := None\<rparr>) recognizer clips =
     collect None (\<lambda>i data. fst (SpeechRecognizer_call recognizer (requests_post env i) data)) 0 clips"
  by (simp add: recognize_stage_def stage_sigint_def)

lemma run_stages_interrupted:
  assumes sig: "sigint env = Some (st, i)" and i: "i < length rs"
    and conv: "st = Converting \<longrightarrow>
                 \<not> isl (convert_stage (env\<lparr>sigint := None\<rparr>) converter (take i rs))"
    and recog: "st = Recognizing \<longrightarrow>
                 (\<exists>clips. convert_stage (env\<lparr>sigint := None\<rparr>) converter rs = Inr clips
                    \<and> \<not> isl (recognize_stage (env\<lparr>sigint := None\<rparr>) recognizer (take i clips)))"
  shows "fst (run_stages env converter recognizer rs) = Inl KeyboardInterrupt"
proof (cases st)
  case Converting
  have "convert_stage env converter rs = Inl KeyboardInterrupt"
    using collect_interrupted[of i rs "\<lambda>i r. FLACConverter_call converter (ffmpeg_flac env) r" 0]
      i conv Converting sig
    by (simp add: convert_stage_no_sigint convert_stage_def stage_sigint_def)
  then show ?thesis using i by (auto simp: run_stages_def)
next
  case Recognizing
  with recog obtain clips where
    clips: "convert_stage (env\<lparr>sigint := None\<rparr>) converter rs = Inr clips"
    and fin: "\<not> isl (recognize_stage (env\<lparr>sigint := None\<rparr>) recognizer (take i clips))"
    by blast
  have c: "convert_stage env converter rs = Inr clips"
    using clips sig Recognizing by (simp add: convert_stage_no_sigint convert_stage_def stage_sigint_def)
  have len: "length clips = length rs"
    using clips collect_aligned unfolding convert_stage_no_sigint by blast
  have "recognize_stage env recognizer clips = Inl KeyboardInterrupt"
    using collect_interrupted
      [of i clips "\<lambda>i data. fst (SpeechRecognizer_call recognizer (requests_post env i) data)" 0]
      i len fin sig Recognizing
    by (simp add: recognize_stage_no_sigint recognize_stage_def stage_sigint_def)
  then show ?thesis using i c by (auto simp: run_stages_def)
qed

text \<open>
  Claim C8: if an interrupt of the main process occurs during either stage of
  \<^verbatim>\<open>generate_subtitles\<close> (in the conversion stage while the results before it have come
  in, or in the recognition stage after the conversion stage has completed and the
  results before it have come in), the run ends with \<^verbatim>\<open>KeyboardInterrupt\<close> and writes no
  file: the files are those that \<^verbatim>\<open>extract_audio\<close> left, which differ from the files
  before the run in the temporary audio file only.
\<close>

theorem cancellation_writes_no_file:
  assumes "extract_audio env fs src_path = (Inr (audio_filename, audio_rate), fs1)"
    and "detect env fs1 audio_filename = Inr rs"
    and "1 \<le> concurrency"
    and "sigint env = Some (st, i)" and "i < length rs"
    and "converter = \<lparr>source_path = audio_filename, include_before = 1 / 4,
                       include_after = 1 / 4\<rparr>"
    and "recognizer = \<lparr>language = src_language, rate = audio_rate,
                        api_key = GOOGLE_SPEECH_API_KEY env, retries = 3\<rparr>"
    and "st = Converting \<longrightarrow>
           \<not> isl (convert_stage (env\<lparr>sigint := None\<rparr>) converter (take i rs))"
    and "st = Recognizing \<longrightarrow>
           (\<exists>clips. convert_stage (env\<lparr>sigint := None\<rparr>) converter rs = Inr clips
              \<and> \<not> isl (recognize_stage (env\<lparr>sigint := None\<rparr>) recognizer (take i clips)))"
  shows "outcome (generate_subtitles env fs src_path concurrency src_language
                    subtitle_file_format output) = Inl KeyboardInterrupt
       \<and> files_after (generate_subtitles env fs src_path concurrency src_language
                    subtitle_file_format output) = fs1
       \<and> (\<forall>p. p \<noteq> temp_wav env \<longrightarrow> fs1 p = fs p)"
proof -
  have "fst (run_stages env converter recognizer rs) = Inl KeyboardInterrupt"
    using assms(4,5,8,9) by (rule run_stages_interrupted)
  then obtain n where "run_stages env converter recognizer rs = (Inl KeyboardInterrupt, n)"
    by (cases "run_stages env converter recognizer rs") auto
  then have "outcome (generate_subtitles env fs src_path concurrency src_language
                    subtitle_file_format output) = Inl KeyboardInterrupt
       \<and> files_after (generate_subtitles env fs src_path concurrency src_language
                    subtitle_file_format output) = fs1"
    using assms(1-3) unfolding assms(6,7) by (simp add: generate_subtitles_def)
  moreover have "\<forall>p. p \<noteq> temp_wav env \<longrightarrow> fs1 p = fs p"
    using extract_audio_files[OF assms(1)] by blast
  ultimately show ?thesis by blast
qed

lemma FLACConverter_call_error:
  assumes "ffmpeg (source_path self) (max 0 (fst region - include_before self))
             (snd region + include_after self - max 0 (fst region - include_before self)) = Inl e"
    and "e \<noteq> KeyboardInterrupt"
  shows "FLACConverter_call self ffmpeg region = Inl e"
  using assms by (simp add: FLACConverter_call_def Let_def)

text \<open>
  Claim C3 as amended: when the conversion tool exits non-zero for a region (and the
  results before it have come in, the main process not being interrupted), the
  \<^verbatim>\<open>CalledProcessError\<close> is not caught by \<^verbatim>\<open>FLACConverter.__call__\<close>, it is raised again in
  \<^verbatim>\<open>generate_subtitles\<close>, which does not catch it either: the run ends with this error,
  no clip is handed to the recognition stage, and no file is written.
\<close>

theorem extraction_failure_ends_run:
  assumes "extract_audio env fs src_path = (Inr (audio_filename, audio_rate), fs1)"
    and "detect env fs1 audio_filename = Inr rs"
    and "1 \<le> concurrency"
    and "sigint env = None" and "i < length rs"
    and "converter = \<lparr>source_path = audio_filename, include_before = 1 / 4,
                       include_after = 1 / 4\<rparr>"
    and "\<not> isl (convert_stage env converter (take i rs))"
    and "ffmpeg_flac env audio_filename (max 0 (fst (rs ! i) - 1 / 4))
           (snd (rs ! i) + 1 / 4 - max 0 (fst (rs ! i) - 1 / 4)) = Inl CalledProcessError"
  shows "FLACConverter_call converter (ffmpeg_flac env) (rs ! i) = Inl CalledProcessError
       \<and> outcome (generate_subtitles env fs src_path concurrency src_language
                    subtitle_file_format output) = Inl CalledProcessError
       \<and> files_after (generate_subtitles env fs src_path concurrency src_language
                    subtitle_file_format output) = fs1
       \<and> recognizer_tasks (generate_subtitles env fs src_path concurrency src_language
                    subtitle_file_format output) = 0"
proof -
  have call: "FLACConverter_call converter (ffmpeg_flac env) (rs ! i) = Inl CalledProcessError"
    using assms(8) unfolding assms(6) by (intro FLACConverter_call_error) simp_all
  have "convert_stage env converter rs = Inl CalledProcessError"
    using collect_worker_error
      [of i rs "\<lambda>i r. FLACConverter_call converter (ffmpeg_flac env) r" 0 CalledProcessError]
      assms(4,5,7) call
    by (simp add: convert_stage_def stage_sigint_def)
  then have "run_stages env converter
               \<lparr>language = src_language, rate = audio_rate,
                 api_key = GOOGLE_SPEECH_API_KEY env, retries = 3\<rparr> rs
             = (Inl CalledProcessError, 0)"
    using assms(5) by (auto simp: run_stages_def)
  then show ?thesis
    using call assms(1-3) unfolding assms(6) by (simp add: generate_subtitles_def)
qed

lemma stages_index_aligned:
  assumes "run_stages env converter recognizer rs = (Inr transcripts, n)"
  shows "length transcripts = length rs \<and>
         (\<forall>i<length rs. \<exists>clip.
            FLACConverter_call converter (ffmpeg_flac env) (rs ! i) = Inr clip \<and>
            fst (SpeechRecognizer_call recognizer (requests_post env i) clip)
              = Inr (transcripts ! i))"
proof (cases "rs = []")
  case True
  with assms show ?thesis by (simp add: run_stages_def)
next
  case False
  with assms obtain clips where
    c: "convert_stage env converter rs = Inr clips"
    and t: "recognize_stage env recognizer clips = Inr transcripts"
    by (auto simp: run_stages_def split: sum.splits)
  from collect_aligned[OF c[unfolded convert_stage_def]]
  have lc: "length clips = length rs"
    and ac: "\<forall>i<length rs. FLACConverter_call converter (ffmpeg_flac env) (rs ! i) = Inr (clips ! i)"
    by auto
  from collect_aligned[OF t[unfolded recognize_stage_def]]
  have lt: "length transcripts = length clips"
    and at: "\<forall>i<length clips.
               fst (SpeechRecognizer_call recognizer (requests_post env i) (clips ! i))
                 = Inr (transcripts ! i)"
    by auto
  show ?thesis using lc lt ac at by auto
qed

lemma retry_loop_interrupted:
  assumes "\<forall>j<i. no_result (post j)" and "i < n" and "post i = Inl KeyboardInterrupt"
  shows "retry_loop post n 0 = (Inr None, Suc i)"
proof -
  from assms(2) obtain m where m: "n - i = Suc m" by (cases "n - i") auto
  have "retry_loop post n 0 = retry_loop post (n - i) i"
    using retry_loop_skip[of i post 0 n] assms(1,2) by simp
  then show ?thesis using assms(3) by (simp add: m)
qed

lemma run_stages_no_interrupt:
  assumes "sigint env = None"
  shows "fst (run_stages env converter recognizer rs) \<noteq> Inl KeyboardInterrupt"
proof -
  have c: "convert_stage env converter rs \<noteq> Inl KeyboardInterrupt"
    unfolding convert_stage_def using assms
    by (simp add: stage_sigint_def collect_no_interrupt FLACConverter_call_no_interrupt)
  have r: "recognize_stage env recognizer clips \<noteq> Inl KeyboardInterrupt" for clips
    unfolding recognize_stage_def SpeechRecognizer_call_def using assms
    by (simp add: stage_sigint_def collect_no_interrupt retry_loop_no_interrupt)
  show ?thesis using c r by (auto simp: run_stages_def split: sum.splits)
qed

text \<open>
  What holds of the two worker callables and an interrupt: neither ever raises
  \<^verbatim>\<open>KeyboardInterrupt\<close>; the converter returns \<^verbatim>\<open>None\<close> when the interrupt arrives during
  the extraction, the recognizer returns \<^verbatim>\<open>None\<close> when it arrives during a request; without
  an interrupt of the main process the stages do not end in \<^verbatim>\<open>KeyboardInterrupt\<close>, and a
  \<^verbatim>\<open>None\<close> transcript gives no subtitle.
\<close>

lemma workers_contain_interrupt:
  "FLACConverter_call converter ffmpeg region \<noteq> Inl KeyboardInterrupt
   \<and> fst (SpeechRecognizer_call recognizer post data) \<noteq> Inl KeyboardInterrupt
   \<and> (ffmpeg (source_path converter) (max 0 (fst region - include_before converter))
         (snd region + include_after converter - max 0 (fst region - include_before converter))
        = Inl KeyboardInterrupt
      \<longrightarrow> FLACConverter_call converter ffmpeg region = Inr None)
   \<and> ((\<forall>j<i. no_result (post data j)) \<and> i < retries recognizer
        \<and> post data i = Inl KeyboardInterrupt
      \<longrightarrow> SpeechRecognizer_call recognizer post data = (Inr None, Suc i))
   \<and> (sigint env = None
      \<longrightarrow> fst (run_stages env converter recognizer rs) \<noteq> Inl KeyboardInterrupt)
   \<and> timed_subtitles [r] [None] = []"
  using FLACConverter_call_no_interrupt retry_loop_no_interrupt retry_loop_interrupted
    run_stages_no_interrupt
  by (simp add: SpeechRecognizer_call_def FLACConverter_call_def Let_def timed_subtitles_def)

text \<open>
  Claim C10 says that \<^verbatim>\<open>FLACConverter.__call__\<close> and \<^verbatim>\<open>SpeechRecognizer.__call__\<close> never
  propagate \<^verbatim>\<open>KeyboardInterrupt\<close> and return \<^verbatim>\<open>None\<close> on an interrupt, for every input. The
  recognizer has \<^verbatim>\<open>except KeyboardInterrupt: return\<close> around its body, but the bare
  \<^verbatim>\<open>except:\<close> around the parsing of a line catches the interrupt first when it arrives
  there: the scan goes on, and the call returns the transcript of a later line. A response
  of two lines, the interrupt arriving in \<^verbatim>\<open>json.loads\<close> of the first, the second with the
  transcript \<^verbatim>\<open>hello\<close>: the call returns \<^verbatim>\<open>Hello\<close>, not \<^verbatim>\<open>None\<close> (an interrupt during the
  request does give \<^verbatim>\<open>None\<close>).
\<close>

theorem interrupt_while_parsing_is_swallowed:
  "SpeechRecognizer_call \<lparr>language = ''en'', rate = 16000, api_key = ''key'', retries = 3\<rparr>
      (\<lambda>data i.
         Inr [Inl KeyboardInterrupt,
              Inr (JObject [(''result'', JArray [JObject [(''alternative'',
                     JArray [JObject [(''transcript'', JString ''hello'')]])]])])])
      (Some ''flac'')
     = (Inr (Some ''Hello''), 1)
   \<and> SpeechRecognizer_call \<lparr>language = ''en'', rate = 16000, api_key = ''key'', retries = 3\<rparr>
      (\<lambda>data i. Inl KeyboardInterrupt) (Some ''flac'')
     = (Inr None, 1)"
  by (simp add: SpeechRecognizer_call_def line_transcript_def transcript_field_def upper_def
        upper_char_def numeral_3_eq_3)


section \<open>Runs of the pipeline\<close>

lemma two_bursts_energies:
  "read_energies two_bursts 4096 = [0, 100, 100, 100, 0, 100, 100, 100, 0]"
  by (simp add: two_bursts_def read_energies_def upt_rec)

lemma two_bursts_threshold:
  "percentile (map of_int [0, 100, 100, 100, 0, 100, 100, 100, 0]) (1 / 5) = Inr 0"
  by (simp add: percentile_eval)

lemma two_bursts_sweep:
  "regions (sweep 0 (32 / 125) (1 / 2) 6 sweep_init [0, 100, 100, 100, 0, 100, 100, 100, 0])
     = [(32 / 125, 128 / 125), (32 / 25, 256 / 125)]"
  by (simp add: sweep_eval)

lemma two_bursts_regions:
  "find_speech_regions two_bursts 4096 (1 / 2) 6 = Inr [(32 / 125, 128 / 125), (32 / 25, 256 / 125)]"
  using two_bursts_energies two_bursts_threshold two_bursts_sweep
  by (simp add: find_speech_regions_def) (simp add: two_bursts_def)

lemma example_extract_audio:
  "extract_audio (example_world clip interrupt) example_files ''talk.mp4''
     = (Inr (''/tmp/tmp0.wav'', 16000), example_files(''/tmp/tmp0.wav'' \<mapsto> ''RIFF''))"
  by (simp add: extract_audio_def example_world_def example_files_def Let_def)

lemma example_detect:
  "detect (example_world clip interrupt) (example_files(''/tmp/tmp0.wav'' \<mapsto> ''RIFF''))
     ''/tmp/tmp0.wav'' = Inr [(32 / 125, 128 / 125), (32 / 25, 256 / 125)]"
  by (simp add: detect_def example_world_def two_bursts_regions)


lemmas pipeline_eval =
  convert_stage_def recognize_stage_def stage_sigint_def FLACConverter_call_def
  SpeechRecognizer_call_def line_transcript_def transcript_field_def upper_def upper_char_def
  hello_record_def numeral_3_eq_3 Let_def

lemma example_convert_stage_fails:
  "convert_stage (example_world (\<lambda>ss. if ss = 3 / 500 then Inl CalledProcessError else Inr ''fLaC'') None)
     \<lparr>source_path = ''/tmp/tmp0.wav'', include_before = 1 / 4, include_after = 1 / 4\<rparr>
     [(32 / 125, 128 / 125), (32 / 25, 256 / 125)]
   = Inl CalledProcessError"
  by (simp add: pipeline_eval example_world_def)

text \<open>
  Claim C3 says that a region whose clip extraction fails does not end the extraction
  stage: the stage completes for the other regions and the output of that region is
  absent. With the tool failing on the first of the two clips, the stage and the whole
  run end in \<^verbatim>\<open>CalledProcessError\<close>.
\<close>

theorem extraction_failure_counterexample:
  "detect (example_world (\<lambda>ss. if ss = 3 / 500 then Inl CalledProcessError else Inr ''fLaC'') None)
      (example_files(''/tmp/tmp0.wav'' \<mapsto> ''RIFF'')) ''/tmp/tmp0.wav''
     = Inr [(32 / 125, 128 / 125), (32 / 25, 256 / 125)]
   \<and> convert_stage
        (example_world (\<lambda>ss. if ss = 3 / 500 then Inl CalledProcessError else Inr ''fLaC'') None)
        \<lparr>source_path = ''/tmp/tmp0.wav'', include_before = 1 / 4, include_after = 1 / 4\<rparr>
        [(32 / 125, 128 / 125), (32 / 25, 256 / 125)]
     = Inl CalledProcessError
   \<and> outcome (generate_subtitles
        (example_world (\<lambda>ss. if ss = 3 / 500 then Inl CalledProcessError else Inr ''fLaC'') None)
        example_files ''talk.mp4'' 10 ''en'' ''srt'' None)
     = Inl CalledProcessError"
  using example_convert_stage_fails
  by (simp add: generate_subtitles_def example_extract_audio example_detect run_stages_def)

text \<open>The tool failing on the second of the two clips.\<close>

theorem extraction_failure_ends_run_witness:
  "FLACConverter_call
      \<lparr>source_path = ''/tmp/tmp0.wav'', include_before = 1 / 4, include_after = 1 / 4\<rparr>
      (ffmpeg_flac (example_world (\<lambda>ss. if ss = 103 / 100 then Inl CalledProcessError else Inr ''fLaC'') None))
      (32 / 25, 256 / 125)
     = Inl CalledProcessError
   \<and> outcome (generate_subtitles
        (example_world (\<lambda>ss. if ss = 103 / 100 then Inl CalledProcessError else Inr ''fLaC'') None)
        example_files ''talk.mp4'' 10 ''en'' ''srt'' None)
     = Inl CalledProcessError
   \<and> files_after (generate_subtitles
        (example_world (\<lambda>ss. if ss = 103 / 100 then Inl CalledProcessError else Inr ''fLaC'') None)
        example_files ''talk.mp4'' 10 ''en'' ''srt'' None)
     = example_files(''/tmp/tmp0.wav'' \<mapsto> ''RIFF'')
   \<and> recognizer_tasks (generate_subtitles
        (example_world (\<lambda>ss. if ss = 103 / 100 then Inl CalledProcessError else Inr ''fLaC'') None)
        example_files ''talk.mp4'' 10 ''en'' ''srt'' None)
     = 0"
proof -
  let ?env = "example_world (\<lambda>ss. if ss = 103 / 100 then Inl CalledProcessError else Inr ''fLaC'') None"
  let ?conv = "\<lparr>source_path = ''/tmp/tmp0.wav'', include_before = 1 / 4, include_after = 1 / 4\<rparr>"
  have first: "\<not> isl (convert_stage ?env ?conv (take 1 [(32 / 125, 128 / 125), (32 / 25, 256 / 125)]))"
    by (simp add: pipeline_eval example_world_def)
  have tool: "ffmpeg_flac ?env ''/tmp/tmp0.wav''
           (max 0 (fst ([(32 / 125, 128 / 125), (32 / 25, 256 / 125)] ! 1) - 1 / 4))
           (snd ([(32 / 125, 128 / 125), (32 / 25, 256 / 125)] ! 1) + 1 / 4
              - max 0 (fst ([(32 / 125, 128 / 125), (32 / 25, 256 / 125)] ! 1) - 1 / 4))
         = Inl CalledProcessError"
    by (simp add: example_world_def)
  have sig: "sigint ?env = None" by (simp add: example_world_def)
  from extraction_failure_ends_run
    [OF example_extract_audio example_detect _ sig _ refl first tool,
     of 10 "''en''" "''srt''" None]
  show ?thesis by simp
qed

text \<open>An interrupt in the recognition stage when one of the two clips has been
  recognized: no \<^verbatim>\<open>talk.srt\<close>.\<close>

theorem cancellation_writes_no_file_witness:
  "recognize_stage (example_world (\<lambda>ss. Inr ''fLaC'') None)
      \<lparr>language = ''en'', rate = 16000, api_key = ''key'', retries = 3\<rparr>
      (take 1 [Some ''fLaC'', Some ''fLaC''])
     = Inr [Some ''Hello'']
   \<and> outcome (generate_subtitles
        (example_world (\<lambda>ss. Inr ''fLaC'') (Some (Recognizing, 1)))
        example_files ''talk.mp4'' 10 ''en'' ''srt'' None)
     = Inl KeyboardInterrupt
   \<and> files_after (generate_subtitles
        (example_world (\<lambda>ss. Inr ''fLaC'') (Some (Recognizing, 1)))
        example_files ''talk.mp4'' 10 ''en'' ''srt'' None)
     = example_files(''/tmp/tmp0.wav'' \<mapsto> ''RIFF'')
   \<and> files_after (generate_subtitles
        (example_world (\<lambda>ss. Inr ''fLaC'') (Some (Recognizing, 1)))
        example_files ''talk.mp4'' 10 ''en'' ''srt'' None) ''talk.srt''
     = None"
proof -
  let ?env = "example_world (\<lambda>ss. Inr ''fLaC'') (Some (Recognizing, 1))"
  let ?conv = "\<lparr>source_path = ''/tmp/tmp0.wav'', include_before = 1 / 4, include_after = 1 / 4\<rparr>"
  let ?rec = "\<lparr>language = ''en'', rate = 16000, api_key = GOOGLE_SPEECH_API_KEY ?env, retries = 3\<rparr>"
  let ?rs = "[(32 / 125, 128 / 125), (32 / 25, 256 / 125 :: real)]"
  have off: "?env\<lparr>sigint := None\<rparr> = example_world (\<lambda>ss. Inr ''fLaC'') None"
    by (simp add: example_world_def)
  have clips: "convert_stage (example_world (\<lambda>ss. Inr ''fLaC'') None) ?conv ?rs
                 = Inr [Some ''fLaC'', Some ''fLaC'']"
    by (simp add: pipeline_eval example_world_def)
  have one: "recognize_stage (example_world (\<lambda>ss. Inr ''fLaC'') None)
               \<lparr>language = ''en'', rate = 16000, api_key = ''key'', retries = 3\<rparr>
               (take 1 [Some ''fLaC'', Some ''fLaC'']) = Inr [Some ''Hello'']"
    by (simp add: pipeline_eval example_world_def)
  have key: "GOOGLE_SPEECH_API_KEY ?env = ''key''" by (simp add: example_world_def)
  have sig: "sigint ?env = Some (Recognizing, 1)" by (simp add: example_world_def)
  have h1: "Recognizing = Converting \<longrightarrow> \<not> isl (convert_stage (?env\<lparr>sigint := None\<rparr>) ?conv (take 1 ?rs))"
    by simp
  have h2: "Recognizing = Recognizing \<longrightarrow>
           (\<exists>clips. convert_stage (?env\<lparr>sigint := None\<rparr>) ?conv ?rs = Inr clips
              \<and> \<not> isl (recognize_stage (?env\<lparr>sigint := None\<rparr>) ?rec (take 1 clips)))"
    unfolding off key using clips one by simp
  from cancellation_writes_no_file
    [OF example_extract_audio example_detect _ sig _ refl refl h1 h2, of 10 "''srt''" None]
  show ?thesis using one by (simp add: example_files_def)
qed

end
